theory Spec2Isabelle
  imports Complex_Main
begin

section \<open>Python values, exceptions and string helpers\<close>

text \<open>
  The source is \<^verbatim>\<open>keanus_candy/models/newperson.py\<close>: the classes \<^verbatim>\<open>Person\<close>,
  \<^verbatim>\<open>User(Person)\<close> and \<^verbatim>\<open>Staff(User)\<close>.

  A Python \<^verbatim>\<open>str\<close> is modelled as a \<^typ>\<open>string\<close>, one \<^typ>\<open>char\<close> per code point (so
  \<^const>\<open>length\<close> is Python's \<^verbatim>\<open>len\<close>); the code points are those below 256.

  \<^verbatim>\<open>validate\<close> tests \<^verbatim>\<open>person_id\<close> and \<^verbatim>\<open>name\<close> with \<^verbatim>\<open>isinstance\<close>, so these two
  fields hold a dynamically typed value. \<open>PyInt n\<close> is an instance of \<^verbatim>\<open>int\<close> (Python's
  \<^verbatim>\<open>bool\<close> is a subclass of \<^verbatim>\<open>int\<close>: \<^verbatim>\<open>True\<close> and \<^verbatim>\<open>False\<close> are \<open>PyInt 1\<close> and
  \<open>PyInt 0\<close> here), \<open>PyStr s\<close> an instance of \<^verbatim>\<open>str\<close>, and \<open>PyOther\<close> any object that is
  an instance of neither (\<^verbatim>\<open>None\<close>, a float, a list). \<^verbatim>\<open>email\<close> and
  \<^verbatim>\<open>_password\<close>, which the source does not test, are strings, as annotated.
\<close>

datatype pyval = PyInt int | PyStr string | PyOther

text \<open>
  Every \<^verbatim>\<open>raise\<close> of the source raises the builtin \<^verbatim>\<open>ValueError\<close> with a message: it
  is the only exception class of this layer.
\<close>

datatype exn = ValueError string

text \<open>
  An exception as the caller of a method sees it, by its class: \<open>Raised (ValueError m)\<close> is
  a \<^verbatim>\<open>ValueError\<close> with the message \<open>m\<close>, \<open>Builtin OverflowError\<close> is the
  \<^verbatim>\<open>OverflowError\<close> of the conversion of an \<^verbatim>\<open>int\<close> to a \<^verbatim>\<open>float\<close>, and \<open>Other x\<close> is an
  exception \<open>x\<close> of any other class. The methods of a collaborator (\<^verbatim>\<open>ShoppingCart\<close>) can
  raise any of them, a \<^verbatim>\<open>ValueError\<close> included; the source has no \<^verbatim>\<open>try\<close>, so what they
  raise reaches the caller as it is.
\<close>

datatype builtin_error = OverflowError

datatype 'x failure = Raised exn | Builtin builtin_error | Other 'x

text \<open>
  \<^verbatim>\<open>str.isspace\<close> on one code point, which is what \<^verbatim>\<open>str.strip()\<close> with no argument
  removes: below 256 these are the code points 9 to 13, 28 to 32, 133 and 160.
\<close>

definition isspace :: "char \<Rightarrow> bool" where
  "isspace c = (of_char c \<in> {9, 10, 11, 12, 13, 28, 29, 30, 31, 32, 133, 160 :: nat})"

text \<open>\<^verbatim>\<open>s.strip()\<close>: the whitespace at both ends is dropped.\<close>

definition strip :: "string \<Rightarrow> string" where
  "strip s = rev (dropWhile isspace (rev (dropWhile isspace s)))"

text \<open>
  \<^verbatim>\<open>s.split(sep)\<close> for a separator of one character: the pieces between the occurrences
  of the separator, in order; a string without the separator is its only piece, and the
  result is never the empty list.
\<close>

fun str_split :: "char \<Rightarrow> string \<Rightarrow> string list" where
  "str_split sep [] = [[]]"
| "str_split sep (c # cs) =
     (if c = sep then [] # str_split sep cs
      else (case str_split sep cs of
              [] \<Rightarrow> [[c]]
            | p # ps \<Rightarrow> (c # p) # ps))"

text \<open>\<^verbatim>\<open>c in s\<close> for a string \<open>c\<close> of one character.\<close>

definition contains :: "char \<Rightarrow> string \<Rightarrow> bool" where
  "contains c s = (c \<in> set s)"

section \<open>Objects and the store\<close>

text \<open>
  Lists and carts are mutable objects reached through references. The store holds the
  state of every list object and every cart object by its address; \<open>next_ref\<close> is the
  first address not handed out yet.
\<close>

type_synonym ref = nat

text \<open>
  \<^verbatim>\<open>User.__init__\<close> sets \<^verbatim>\<open>person_id\<close>, \<^verbatim>\<open>name\<close>, \<^verbatim>\<open>email\<close> (through \<^verbatim>\<open>Person.__init__\<close>),
  \<^verbatim>\<open>_password\<close>, \<^verbatim>\<open>_orders\<close> (a reference to a list object), \<^verbatim>\<open>_cart\<close> (\<^verbatim>\<open>None\<close> or a
  reference to a cart object) and \<^verbatim>\<open>email_verified\<close>. \<^verbatim>\<open>Staff\<close> adds \<^verbatim>\<open>position\<close>.
\<close>

record user =
  person_id :: pyval
  name :: pyval
  email :: string
  password :: string
  orders :: ref
  cart :: "ref option"
  email_verified :: bool

record staff = user +
  position :: string

record ('c, 'o) store =
  cart_objs :: "ref \<Rightarrow> 'c"
  list_objs :: "ref \<Rightarrow> 'o list"
  next_ref :: ref

text \<open>The world of one user object: the object's fields and the store.\<close>

record ('c, 'o, 'z) world = "('c, 'o) store" +
  self :: "'z user_scheme"

text \<open>
  \<^verbatim>\<open>User(user_id, name, email, password)\<close> in a given store: the empty list of
  \<^verbatim>\<open>_orders\<close> is a new list object.
\<close>

definition init_user ::
  "pyval \<Rightarrow> pyval \<Rightarrow> string \<Rightarrow> string \<Rightarrow> ('c, 'o) store \<Rightarrow> ('c, 'o, unit) world" where
  "init_user user_id nm em pw st =
     \<lparr>cart_objs = cart_objs st,
      list_objs = (list_objs st)(next_ref st := []),
      next_ref = Suc (next_ref st),
      self = \<lparr>person_id = user_id, name = nm, email = em, password = pw,
               orders = next_ref st, cart = None, email_verified = False\<rparr>\<rparr>"

text \<open>\<^verbatim>\<open>Staff(user_id, name, email, password, position)\<close>.\<close>

definition init_staff ::
  "pyval \<Rightarrow> pyval \<Rightarrow> string \<Rightarrow> string \<Rightarrow> string \<Rightarrow> ('c, 'o) store
     \<Rightarrow> ('c, 'o, unit staff_ext) world" where
  "init_staff user_id nm em pw pos st =
     \<lparr>cart_objs = cart_objs st,
      list_objs = (list_objs st)(next_ref st := []),
      next_ref = Suc (next_ref st),
      self = \<lparr>person_id = user_id, name = nm, email = em, password = pw,
               orders = next_ref st, cart = None, email_verified = False,
               position = pos\<rparr>\<rparr>"

section \<open>User\<close>

text \<open>\<^verbatim>\<open>login\<close>: one expression, no assignment.\<close>

definition login :: "string \<Rightarrow> string \<Rightarrow> ('c, 'o, 'z) world \<Rightarrow> bool" where
  "login em pw w = (email (self w) = em \<and> password (self w) = pw)"

text \<open>
  \<^verbatim>\<open>validate\<close>: three tests in the source's order, each raising \<^verbatim>\<open>ValueError\<close>; it
  assigns nothing and returns \<^verbatim>\<open>None\<close>.
\<close>

definition validate :: "('c, 'o, 'z) world \<Rightarrow> exn + unit" where
  "validate w =
     (if (case person_id (self w) of PyInt n \<Rightarrow> n < 0 | _ \<Rightarrow> True)
      then Inl (ValueError ''person_id must be a non-negative int'')
      else if (case name (self w) of PyStr s \<Rightarrow> strip s = [] | _ \<Rightarrow> True)
      then Inl (ValueError ''name must be a non-empty string'')
      else if \<not> contains CHR ''@'' (email (self w))
              \<or> \<not> contains CHR ''.'' (last (str_split CHR ''@'' (email (self w))))
      then Inl (ValueError ''email appears invalid'')
      else Inr ())"

text \<open>
  \<^verbatim>\<open>change_password\<close>: the comparison with the stored password comes first, the length
  test second, the assignment last.
\<close>

definition change_password ::
  "string \<Rightarrow> string \<Rightarrow> ('c, 'o, 'z) world \<Rightarrow> (exn + bool) \<times> ('c, 'o, 'z) world" where
  "change_password old_password new_password w =
     (if password (self w) \<noteq> old_password then (Inr False, w)
      else if length new_password < 8
      then (Inl (ValueError ''new_password must be at least 8 characters''), w)
      else (Inr True, w\<lparr>self := (self w)\<lparr>password := new_password\<rparr>\<rparr>))"

text \<open>
  The collaborator \<^verbatim>\<open>ShoppingCart\<close> (module \<^verbatim>\<open>newshopping\<close>) is used through its
  constructor, \<^verbatim>\<open>add_item\<close>, \<^verbatim>\<open>create_order\<close>, \<^verbatim>\<open>clear\<close> and its truth value
  (\<^verbatim>\<open>not self._cart\<close>). It is a parameter of the model: \<open>'c\<close> is the state of a cart
  object, each method returns its result, or the exception \<open>Inl f\<close> it raised, together
  with the new state of the cart, and \<open>truthy\<close> is \<^verbatim>\<open>bool(cart)\<close>, which Python takes from
  \<^verbatim>\<open>__bool__\<close> or \<^verbatim>\<open>__len__\<close> when the class defines one and which is \<^verbatim>\<open>True\<close> for every
  instance of a class that defines neither. The methods act on the cart object only.
\<close>

record ('c, 'k, 'p, 'o, 'x) shopping =
  new_cart :: "'x failure + 'c"
  add_item :: "'c \<Rightarrow> 'k \<Rightarrow> int \<Rightarrow> ('x failure + unit) \<times> 'c"
  create_order :: "'c \<Rightarrow> 'p \<Rightarrow> ('x failure + 'o) \<times> 'c"
  clear :: "'c \<Rightarrow> ('x failure + unit) \<times> 'c"
  truthy :: "'c \<Rightarrow> bool"

text \<open>\<^verbatim>\<open>self._cart.add_item(candy, quantity)\<close> on the cart object at \<open>r\<close>.\<close>

definition add_item_at ::
  "('c, 'k, 'p, 'o, 'x) shopping \<Rightarrow> ref \<Rightarrow> 'k \<Rightarrow> int \<Rightarrow> ('c, 'o, 'z) world
     \<Rightarrow> ('x failure + unit) \<times> ('c, 'o, 'z) world" where
  "add_item_at S r candy qty w =
     (case add_item S (cart_objs w r) candy qty of
        (res, c') \<Rightarrow> (res, w\<lparr>cart_objs := (cart_objs w)(r := c')\<rparr>))"

text \<open>
  \<^verbatim>\<open>self._cart = ShoppingCart(self)\<close> followed by \<^verbatim>\<open>add_item\<close>: the new cart is a new
  object; when the constructor raises, nothing is assigned.
\<close>

definition add_to_new_cart ::
  "('c, 'k, 'p, 'o, 'x) shopping \<Rightarrow> 'k \<Rightarrow> int \<Rightarrow> ('c, 'o, 'z) world
     \<Rightarrow> ('x failure + unit) \<times> ('c, 'o, 'z) world" where
  "add_to_new_cart S candy qty w =
     (case new_cart S of
        Inl f \<Rightarrow> (Inl f, w)
      | Inr c \<Rightarrow>
          add_item_at S (next_ref w) candy qty
            (w\<lparr>cart_objs := (cart_objs w)(next_ref w := c),
               next_ref := Suc (next_ref w),
               self := (self w)\<lparr>cart := Some (next_ref w)\<rparr>\<rparr>))"

text \<open>
  \<^verbatim>\<open>add_to_cart\<close>: \<^verbatim>\<open>not self._cart\<close> holds when \<^verbatim>\<open>_cart\<close> is \<^verbatim>\<open>None\<close> and when the
  cart object is falsy. The method has no \<^verbatim>\<open>raise\<close> of its own.
\<close>

definition add_to_cart ::
  "('c, 'k, 'p, 'o, 'x) shopping \<Rightarrow> 'k \<Rightarrow> int \<Rightarrow> ('c, 'o, 'z) world
     \<Rightarrow> ('x failure + unit) \<times> ('c, 'o, 'z) world" where
  "add_to_cart S candy qty w =
     (case cart (self w) of
        None \<Rightarrow> add_to_new_cart S candy qty w
      | Some r \<Rightarrow>
          if \<not> truthy S (cart_objs w r) then add_to_new_cart S candy qty w
          else add_item_at S r candy qty w)"

text \<open>
  \<^verbatim>\<open>checkout\<close>: the same test \<^verbatim>\<open>not self._cart\<close>, then \<^verbatim>\<open>create_order\<close>, the append to
  \<^verbatim>\<open>_orders\<close>, \<^verbatim>\<open>clear\<close>, and the return of the order, in this order; an exception of
  \<^verbatim>\<open>create_order\<close> leaves \<^verbatim>\<open>_orders\<close> as it was, one of \<^verbatim>\<open>clear\<close> comes after the
  append.
\<close>

definition checkout ::
  "('c, 'k, 'p, 'o, 'x) shopping \<Rightarrow> 'p \<Rightarrow> ('c, 'o, 'z) world
     \<Rightarrow> ('x failure + 'o) \<times> ('c, 'o, 'z) world" where
  "checkout S payment_method w =
     (case cart (self w) of
        None \<Rightarrow> (Inl (Raised (ValueError ''Cart is empty'')), w)
      | Some r \<Rightarrow>
          if \<not> truthy S (cart_objs w r)
          then (Inl (Raised (ValueError ''Cart is empty'')), w)
          else
            (case create_order S (cart_objs w r) payment_method of
               (Inl f, c1) \<Rightarrow> (Inl f, w\<lparr>cart_objs := (cart_objs w)(r := c1)\<rparr>)
             | (Inr ord, c1) \<Rightarrow>
                 (case clear S c1 of
                    (res, c2) \<Rightarrow>
                      ((case res of Inl f \<Rightarrow> Inl f | Inr u \<Rightarrow> Inr ord),
                       w\<lparr>cart_objs := (cart_objs w)(r := c2),
                          list_objs := (list_objs w)
                            (orders (self w) := list_objs w (orders (self w)) @ [ord])\<rparr>))))"

text \<open>
  \<^verbatim>\<open>get_orders\<close>: \<^verbatim>\<open>self._orders.copy()\<close> is a new list object with the elements of
  \<^verbatim>\<open>_orders\<close>; the reference to it is returned.
\<close>

definition get_orders :: "('c, 'o, 'z) world \<Rightarrow> ref \<times> ('c, 'o, 'z) world" where
  "get_orders w =
     (next_ref w,
      w\<lparr>list_objs := (list_objs w)(next_ref w := list_objs w (orders (self w))),
         next_ref := Suc (next_ref w)\<rparr>)"

text \<open>\<^verbatim>\<open>get_cart\<close>: the reference held in \<^verbatim>\<open>_cart\<close>, or \<^verbatim>\<open>None\<close>.\<close>

definition get_cart :: "('c, 'o, 'z) world \<Rightarrow> ref option" where
  "get_cart w = cart (self w)"

text \<open>
  What a caller holding a reference to a list object can do to it: \<^verbatim>\<open>xs.append(x)\<close>,
  and, in general, leave any contents \<open>ys\<close> in it.
\<close>

definition list_append :: "ref \<Rightarrow> 'o \<Rightarrow> ('c, 'o, 'z) world \<Rightarrow> ('c, 'o, 'z) world" where
  "list_append r x w = w\<lparr>list_objs := (list_objs w)(r := list_objs w r @ [x])\<rparr>"

definition list_assign :: "ref \<Rightarrow> 'o list \<Rightarrow> ('c, 'o, 'z) world \<Rightarrow> ('c, 'o, 'z) world" where
  "list_assign r ys w = w\<lparr>list_objs := (list_objs w)(r := ys)\<rparr>"

section \<open>Python numbers\<close>

text \<open>
  \<^verbatim>\<open>view_sales_report\<close> adds the \<^verbatim>\<open>total_amount\<close> of the orders and renders the total
  with the format \<^verbatim>\<open>.2f\<close>. A \<^verbatim>\<open>total_amount\<close> is a Python \<^verbatim>\<open>int\<close> or a Python
  \<^verbatim>\<open>float\<close>. A \<^verbatim>\<open>float\<close> is an IEEE 754 double: \<open>Finite s m e\<close> is the number
  \<open>m * 2 ^ e\<close>, negative when \<open>s\<close> is true (so \<open>Finite True 0 0\<close> is \<^verbatim>\<open>-0.0\<close>),
  \<open>Infinity s\<close> is \<^verbatim>\<open>inf\<close> or \<^verbatim>\<open>-inf\<close>, and \<open>NaN\<close> is \<^verbatim>\<open>nan\<close>.
\<close>

datatype pyfloat = Finite bool nat int | Infinity bool | NaN

datatype number = IntNum int | FloatNum pyfloat

text \<open>\<^verbatim>\<open>n.bit_length()\<close> for \<open>n \<ge> 0\<close>.\<close>

function bit_length :: "nat \<Rightarrow> nat" where
  "bit_length n = (if n = 0 then 0 else Suc (bit_length (n div 2)))"
  by pat_completeness auto
termination
  by (relation "measure id") auto

declare bit_length.simps [simp del]

text \<open>\<open>n / d\<close> rounded to the nearest integer, a tie to the even one (\<open>d > 0\<close>).\<close>

definition rne_div :: "nat \<Rightarrow> nat \<Rightarrow> nat" where
  "rne_div n d =
     (let q = n div d; r = n mod d
      in if 2 * r < d then q
         else if d < 2 * r then q + 1
         else if even q then q else q + 1)"

text \<open>
  The double nearest to \<open>n * 2 ^ e\<close>, with the sign \<open>s\<close>: a significand of at most 53 bits,
  an exponent of at least -1074, ties to the even significand, and infinity from
  \<open>2 ^ 1024\<close> on. A result other than zero has 53 bits or the exponent -1074.
\<close>

definition round_double :: "bool \<Rightarrow> nat \<Rightarrow> int \<Rightarrow> pyfloat" where
  "round_double s n e =
     (if n = 0 then Finite s 0 0
      else
        let e1 = max (e + int (bit_length n) - 53) (- 1074);
            m = (if e1 \<le> e then n * 2 ^ nat (e - e1) else rne_div n (2 ^ nat (e1 - e)));
            m2 = (if m = 2 ^ 53 then 2 ^ 52 else m);
            e2 = (if m = 2 ^ 53 then e1 + 1 else e1)
        in if 971 < e2 then Infinity s else Finite s m2 e2)"

definition signed :: "bool \<Rightarrow> nat \<Rightarrow> int" where
  "signed s n = (if s then - int n else int n)"

text \<open>
  The sum of two doubles: the exact sum, rounded. An exact sum of zero is \<^verbatim>\<open>0.0\<close>, and
  \<^verbatim>\<open>-0.0\<close> only when both summands are \<^verbatim>\<open>-0.0\<close>.
\<close>

fun fadd :: "pyfloat \<Rightarrow> pyfloat \<Rightarrow> pyfloat" where
  "fadd NaN y = NaN"
| "fadd x NaN = NaN"
| "fadd (Infinity s) (Infinity t) = (if s = t then Infinity s else NaN)"
| "fadd (Infinity s) (Finite t n f) = Infinity s"
| "fadd (Finite s m e) (Infinity t) = Infinity t"
| "fadd (Finite s m e) (Finite t n f) =
     (let g = min e f;
          c = signed s (m * 2 ^ nat (e - g)) + signed t (n * 2 ^ nat (f - g))
      in if c = 0 then Finite (s \<and> t) 0 0
         else round_double (c < 0) (nat \<bar>c\<bar>) g)"

text \<open>
  The conversion of an \<^verbatim>\<open>int\<close> to a \<^verbatim>\<open>float\<close>: the nearest double, and
  \<^verbatim>\<open>OverflowError\<close> when that would be infinity.
\<close>

definition float_of_int :: "int \<Rightarrow> builtin_error + pyfloat" where
  "float_of_int i =
     (case round_double (i < 0) (nat \<bar>i\<bar>) 0 of
        Infinity s \<Rightarrow> Inl OverflowError
      | x \<Rightarrow> Inr x)"

fun to_float :: "number \<Rightarrow> builtin_error + pyfloat" where
  "to_float (IntNum i) = float_of_int i"
| "to_float (FloatNum x) = Inr x"

text \<open>Python's \<^verbatim>\<open>+\<close>: exact on two ints; an int added to a float is converted first.\<close>

fun py_add :: "number \<Rightarrow> number \<Rightarrow> builtin_error + number" where
  "py_add (IntNum a) (IntNum b) = Inr (IntNum (a + b))"
| "py_add (IntNum a) (FloatNum y) = map_sum id (\<lambda>x. FloatNum (fadd x y)) (float_of_int a)"
| "py_add (FloatNum x) (IntNum b) = map_sum id (\<lambda>y. FloatNum (fadd x y)) (float_of_int b)"
| "py_add (FloatNum x) (FloatNum y) = Inr (FloatNum (fadd x y))"

text \<open>
  \<^verbatim>\<open>sum(xs)\<close>: the items are added from left to right, starting from the integer 0. (For
  floats this is the plain addition of doubles one after the other, as CPython computes
  it before 3.12; later versions compensate the rounding of inexact float additions.)
\<close>

fun sum_from :: "number \<Rightarrow> number list \<Rightarrow> builtin_error + number" where
  "sum_from acc [] = Inr acc"
| "sum_from acc (x # xs) =
     (case py_add acc x of Inl err \<Rightarrow> Inl err | Inr acc' \<Rightarrow> sum_from acc' xs)"

definition py_sum :: "number list \<Rightarrow> builtin_error + number" where
  "py_sum xs = sum_from (IntNum 0) xs"

definition digit :: "nat \<Rightarrow> char" where
  "digit d =
     (if d = 0 then CHR ''0'' else if d = 1 then CHR ''1'' else if d = 2 then CHR ''2''
      else if d = 3 then CHR ''3'' else if d = 4 then CHR ''4'' else if d = 5 then CHR ''5''
      else if d = 6 then CHR ''6'' else if d = 7 then CHR ''7'' else if d = 8 then CHR ''8''
      else CHR ''9'')"

function digits10 :: "nat \<Rightarrow> string" where
  "digits10 n = (if n < 10 then [digit n] else digits10 (n div 10) @ [digit (n mod 10)])"
  by pat_completeness auto
termination
  by (relation "measure id") auto

declare digits10.simps [simp del]

text \<open>
  The format \<^verbatim>\<open>.2f\<close> of a float: \<open>cents m e\<close> is \<open>100 * m * 2 ^ e\<close> rounded to the nearest
  integer, a tie to the even one, and \<open>fixed2 c\<close> writes \<open>c\<close> hundredths with two decimals.
  The sign is that of the float, also when the digits are all zero; \<^verbatim>\<open>inf\<close> and
  \<^verbatim>\<open>nan\<close> are written by name. An \<^verbatim>\<open>int\<close> is converted to a float first.
\<close>

definition cents :: "nat \<Rightarrow> int \<Rightarrow> nat" where
  "cents m e = (if 0 \<le> e then 100 * m * 2 ^ nat e else rne_div (100 * m) (2 ^ nat (- e)))"

definition fixed2 :: "nat \<Rightarrow> string" where
  "fixed2 c = digits10 (c div 100) @ ''.'' @ [digit (c mod 100 div 10), digit (c mod 10)]"

fun float_2f :: "pyfloat \<Rightarrow> string" where
  "float_2f NaN = ''nan''"
| "float_2f (Infinity s) = (if s then ''-inf'' else ''inf'')"
| "float_2f (Finite s m e) = (if s then ''-'' else '''') @ fixed2 (cents m e)"

definition format_2f :: "number \<Rightarrow> builtin_error + string" where
  "format_2f t = map_sum id float_2f (to_float t)"

section \<open>Staff\<close>

text \<open>
  \<^verbatim>\<open>update_inventory\<close> assigns the attribute \<^verbatim>\<open>quantity\<close> of its argument and touches
  nothing else; the function returns the candy object after the call.
\<close>

record candy =
  quantity :: int

definition update_inventory ::
  "'q candy_scheme \<Rightarrow> int \<Rightarrow> ('c, 'o, 'z staff_ext) world \<Rightarrow> 'q candy_scheme" where
  "update_inventory cnd new_quantity w = cnd\<lparr>quantity := new_quantity\<rparr>"

text \<open>
  \<^verbatim>\<open>view_sales_report\<close>: the \<^verbatim>\<open>total_amount\<close> of each order of the argument is read
  (by \<open>amount_of\<close>, as the class of the orders is not part of the source), \<^verbatim>\<open>sum\<close> adds
  them, and the f-string renders the total after the text \<^verbatim>\<open>Total sales: $\<close>. An
  \<^verbatim>\<open>OverflowError\<close> of the addition or of the rendering is not caught. \<^verbatim>\<open>self\<close> is not
  used.
\<close>

definition view_sales_report ::
  "('a \<Rightarrow> number) \<Rightarrow> 'a list \<Rightarrow> ('c, 'o, 'z staff_ext) world \<Rightarrow> builtin_error + string" where
  "view_sales_report amount_of order_list w =
     (case py_sum (map amount_of order_list) of
        Inl err \<Rightarrow> Inl err
      | Inr t \<Rightarrow> map_sum id (\<lambda>s. ''Total sales: $'' @ s) (format_2f t))"

section \<open>Sequences of calls\<close>

text \<open>
  A call of a method of \<^verbatim>\<open>User\<close>, and what it gives back: the value returned or the
  exception raised, and the world after the call.
\<close>

datatype ('k, 'p) user_op =
    Login string string
  | Validate
  | ChangePassword string string
  | AddToCart 'k int
  | Checkout 'p
  | GetOrders
  | GetCart

datatype 'o ret = RNone | RBool bool | ROrder 'o | RList ref | RCart "ref option"

fun exec ::
  "('c, 'k, 'p, 'o, 'x) shopping \<Rightarrow> ('k, 'p) user_op \<Rightarrow> ('c, 'o, 'z) world
     \<Rightarrow> ('x failure + 'o ret) \<times> ('c, 'o, 'z) world" where
  "exec S (Login em pw) w = (Inr (RBool (login em pw w)), w)"
| "exec S Validate w = (map_sum Raised (\<lambda>u. RNone) (validate w), w)"
| "exec S (ChangePassword old new) w =
     (case change_password old new w of (res, w') \<Rightarrow> (map_sum Raised RBool res, w'))"
| "exec S (AddToCart candy qty) w =
     (case add_to_cart S candy qty w of
        (res, w') \<Rightarrow> (map_sum id (\<lambda>u. RNone) res, w'))"
| "exec S (Checkout pm) w =
     (case checkout S pm w of (res, w') \<Rightarrow> (map_sum id ROrder res, w'))"
| "exec S GetOrders w = (case get_orders w of (r, w') \<Rightarrow> (Inr (RList r), w'))"
| "exec S GetCart w = (Inr (RCart (get_cart w)), w)"

text \<open>
  The calls of a list, one after the other on the same user; a caller that catches an
  exception goes on with the world the failed call left.
\<close>

fun run ::
  "('c, 'k, 'p, 'o, 'x) shopping \<Rightarrow> ('k, 'p) user_op list \<Rightarrow> ('c, 'o, 'z) world
     \<Rightarrow> ('c, 'o, 'z) world" where
  "run S [] w = w"
| "run S (op # ops) w = run S ops (snd (exec S op w))"

text \<open>A call on a \<^verbatim>\<open>Staff\<close> object: an inherited method or one of its own two.\<close>

datatype ('k, 'p, 'o, 'q) staff_op =
    Inherited "('k, 'p) user_op"
  | UpdateInventory 'q int
  | ViewSalesReport "'o list"

datatype ('o, 'q) staff_ret = FromUser "'o ret" | RCandy 'q | RStr string

fun exec_staff ::
  "('c, 'k, 'p, 'o, 'x) shopping \<Rightarrow> ('a \<Rightarrow> number)
     \<Rightarrow> ('k, 'p, 'a, 'q candy_scheme) staff_op \<Rightarrow> ('c, 'o, 'z staff_ext) world
     \<Rightarrow> ('x failure + ('o, 'q candy_scheme) staff_ret) \<times> ('c, 'o, 'z staff_ext) world"
  where
  "exec_staff S A (Inherited op) w =
     (case exec S op w of (res, w') \<Rightarrow> (map_sum id FromUser res, w'))"
| "exec_staff S A (UpdateInventory cnd new_quantity) w =
     (Inr (RCandy (update_inventory cnd new_quantity w)), w)"
| "exec_staff S A (ViewSalesReport order_list) w =
     (map_sum Builtin RStr (view_sales_report A order_list w), w)"

fun run_staff ::
  "('c, 'k, 'p, 'o, 'x) shopping \<Rightarrow> ('a \<Rightarrow> number)
     \<Rightarrow> ('k, 'p, 'a, 'q candy_scheme) staff_op list \<Rightarrow> ('c, 'o, 'z staff_ext) world
     \<Rightarrow> ('c, 'o, 'z staff_ext) world" where
  "run_staff S A [] w = w"
| "run_staff S A (op # ops) w = run_staff S A ops (snd (exec_staff S A op w))"

section \<open>Predicates of the statements and a concrete instance\<close>

text \<open>A blank string: every character is whitespace (the empty string is blank).\<close>

definition blank :: "string \<Rightarrow> bool" where
  "blank s = list_all isspace s"

text \<open>
  The part of \<open>s\<close> after the last occurrence of \<open>c\<close>; the whole of \<open>s\<close> when \<open>c\<close> does
  not occur.
\<close>

definition after_last :: "char \<Rightarrow> string \<Rightarrow> string" where
  "after_last c s = rev (takeWhile (\<lambda>x. x \<noteq> c) (rev s))"

definition nonneg_int :: "pyval \<Rightarrow> bool" where
  "nonneg_int v = (case v of PyInt n \<Rightarrow> 0 \<le> n | _ \<Rightarrow> False)"

definition nonblank_str :: "pyval \<Rightarrow> bool" where
  "nonblank_str v = (case v of PyStr s \<Rightarrow> \<not> blank s | _ \<Rightarrow> False)"



text \<open>
  The value of \<^verbatim>\<open>not self._cart\<close>: there is no cart, or the cart object is falsy.
\<close>

definition cart_falsy :: "('c, 'k, 'p, 'o, 'x) shopping \<Rightarrow> ('c, 'o, 'z) world \<Rightarrow> bool" where
  "cart_falsy S w = (case cart (self w) of None \<Rightarrow> True | Some r \<Rightarrow> \<not> truthy S (cart_objs w r))"

text \<open>
  The exception, if any, that \<^verbatim>\<open>create_order(payment_method)\<close> followed by \<^verbatim>\<open>clear()\<close>
  raises on a cart in the state \<open>c\<close>.
\<close>

definition order_failure ::
  "('c, 'k, 'p, 'o, 'x) shopping \<Rightarrow> 'p \<Rightarrow> 'c \<Rightarrow> 'x failure option" where
  "order_failure S pm c =
     (case create_order S c pm of
        (Inl f, c1) \<Rightarrow> Some f
      | (Inr ord, c1) \<Rightarrow> (case fst (clear S c1) of Inl f \<Rightarrow> Some f | Inr u \<Rightarrow> None))"

text \<open>
  The list object of \<^verbatim>\<open>_orders\<close> has been handed out by the store. \<^const>\<open>init_user\<close>
  establishes this and every call keeps it.
\<close>

definition allocated :: "('c, 'o, 'z) world \<Rightarrow> bool" where
  "allocated w = (orders (self w) < next_ref w)"

text \<open>
  A cart class for concrete runs: the cart keeps its items in a list, \<^verbatim>\<open>create_order\<close>
  returns the items with the payment method, and the class defines neither \<^verbatim>\<open>__bool__\<close>
  nor \<^verbatim>\<open>__len__\<close>. \<open>sized_cart\<close> is the same class with a \<^verbatim>\<open>__len__\<close> that counts the
  items, so that an empty cart is falsy.
\<close>

definition list_cart ::
  "((string \<times> int) list, string, string, (string \<times> int) list \<times> string, string) shopping" where
  "list_cart =
     \<lparr>new_cart = Inr [],
      add_item = (\<lambda>c k q. (Inr (), c @ [(k, q)])),
      create_order = (\<lambda>c pm. (Inr (c, pm), c)),
      clear = (\<lambda>c. (Inr (), [])),
      truthy = (\<lambda>c. True)\<rparr>"

definition sized_cart ::
  "((string \<times> int) list, string, string, (string \<times> int) list \<times> string, string) shopping" where
  "sized_cart = list_cart\<lparr>truthy := (\<lambda>c. c \<noteq> [])\<rparr>"

definition empty_store :: "((string \<times> int) list, (string \<times> int) list \<times> string) store" where
  "empty_store = \<lparr>cart_objs = (\<lambda>r. []), list_objs = (\<lambda>r. []), next_ref = 0\<rparr>"

text \<open>The user of the specification's scenario, and the same person as a staff member.\<close>

definition ann :: "((string \<times> int) list, (string \<times> int) list \<times> string, unit) world" where
  "ann = init_user (PyInt 1) (PyStr ''Ann'') ''a@b.com'' ''secret123'' empty_store"



text \<open>Ann after \<^verbatim>\<open>add_to_cart\<close> of two mints.\<close>

definition ann_shopping ::
  "((string \<times> int) list, (string \<times> int) list \<times> string, unit) world" where
  "ann_shopping = snd (add_to_cart list_cart ''mint'' 2 ann)"

section \<open>Facts about the string helpers\<close>

lemma dropWhile_all: "(\<forall>x \<in> set (dropWhile P xs). P x) = (\<forall>x \<in> set xs. P x)"
proof
  assume a: "\<forall>x \<in> set (dropWhile P xs). P x"
  have "dropWhile P xs = []"
  proof (rule ccontr)
    assume "dropWhile P xs \<noteq> []"
    then have "\<not> P (hd (dropWhile P xs))" "hd (dropWhile P xs) \<in> set (dropWhile P xs)"
      by (simp_all add: hd_dropWhile)
    with a show False by blast
  qed
  then show "\<forall>x \<in> set xs. P x" by simp
next
  assume "\<forall>x \<in> set xs. P x"
  then show "\<forall>x \<in> set (dropWhile P xs). P x" by (meson set_dropWhileD)
qed

text \<open>\<^verbatim>\<open>not s.strip()\<close> holds exactly for the blank strings.\<close>

lemma strip_empty_iff: "(strip s = []) = blank s"
  by (simp add: strip_def blank_def dropWhile_all list_all_iff)

lemma str_split_nonempty: "str_split c s \<noteq> []"
  by (induction s) (auto split: list.splits)

lemma str_split_no_sep: "c \<notin> set s \<Longrightarrow> str_split c s = [s]"
  by (induction s) (auto split: list.splits)

lemma str_split_append: "str_split c (xs @ c # ys) = str_split c xs @ str_split c ys"
proof (induction xs)
  case Nil
  then show ?case by simp
next
  case (Cons x xs)
  then show ?case
    by (cases "str_split c xs") (auto simp: str_split_nonempty)
qed

text \<open>\<^verbatim>\<open>s.split(c)[-1]\<close> is the part of \<open>s\<close> after the last \<open>c\<close>.\<close>

lemma last_str_split: "last (str_split c s) = after_last c s"
proof (cases "c \<in> set s")
  case False
  then have tw: "takeWhile (\<lambda>x. x \<noteq> c) (rev s) = rev s"
    by auto
  have "after_last c s = s"
    unfolding after_last_def tw by simp
  with False show ?thesis by (simp add: str_split_no_sep)
next
  case True
  then have "c \<in> set (rev s)" by simp
  then obtain ys zs where r: "rev s = ys @ c # zs" and n: "c \<notin> set ys"
    by (meson split_list_first)
  then have s: "s = rev zs @ c # rev ys"
    by (metis rev_append rev_rev_ident rev.simps(2) append.assoc append_Cons append_Nil)
  have t: "takeWhile (\<lambda>x. x \<noteq> c) (rev s) = ys"
    using r n by (auto simp: takeWhile_tail)
  have "last (str_split c s) = last (str_split c (rev ys))"
    unfolding s by (simp add: str_split_append str_split_nonempty)
  also have "\<dots> = rev ys"
    using n by (simp add: str_split_no_sep)
  finally show ?thesis by (simp add: after_last_def t)
qed

section \<open>Facts about the concrete instance\<close>

lemma ann_fields:
  "person_id (self ann) = PyInt 1" "name (self ann) = PyStr ''Ann''"
  "email (self ann) = ''a@b.com''" "password (self ann) = ''secret123''"
  "orders (self ann) = 0" "cart (self ann) = None" "email_verified (self ann) = False"
  "next_ref ann = 1" "list_objs ann 0 = []"
  by (simp_all add: ann_def init_user_def empty_store_def)

lemma list_cart_fields:
  "new_cart list_cart = Inr []" "add_item list_cart c k q = (Inr (), c @ [(k, q)])"
  "create_order list_cart c pm = (Inr (c, pm), c)" "clear list_cart c = (Inr (), [])"
  "truthy list_cart c"
  by (simp_all add: list_cart_def)

lemma sized_cart_fields:
  "new_cart sized_cart = Inr []" "add_item sized_cart c k q = (Inr (), c @ [(k, q)])"
  "create_order sized_cart c pm = (Inr (c, pm), c)" "clear sized_cart c = (Inr (), [])"
  "truthy sized_cart c = (c \<noteq> [])"
  by (simp_all add: sized_cart_def list_cart_def)

lemma ann_shopping_fields:
  "cart (self ann_shopping) = Some 1" "cart_objs ann_shopping 1 = [(''mint'', 2)]"
  "cart_objs ann_shopping (Suc 0) = [(''mint'', 2)]"
  "orders (self ann_shopping) = 0" "list_objs ann_shopping 0 = []"
  "next_ref ann_shopping = 2" "email (self ann_shopping) = ''a@b.com''"
  by (simp_all add: ann_shopping_def add_to_cart_def add_to_new_cart_def add_item_at_def
      ann_fields list_cart_fields)

section \<open>The cart reference and the flag under calls\<close>

lemma snd_relabel: "snd (case p of (res, x) \<Rightarrow> (f res, x)) = snd p"
  by (cases p) simp

lemma cart_add_item_at: "cart (self (snd (add_item_at S r k q w))) = cart (self w)"
  by (simp add: add_item_at_def split: prod.splits)

lemma add_to_cart_Some:
  "truthy S (cart_objs w r) \<Longrightarrow> cart (self w) = Some r \<Longrightarrow>
   add_to_cart S k q w = add_item_at S r k q w"
  by (simp add: add_to_cart_def)

lemma cart_checkout: "cart (self (snd (checkout S pm w))) = cart (self w)"
  by (simp add: checkout_def split: option.splits prod.splits sum.splits)

lemma cart_change_password: "cart (self (snd (change_password old new w))) = cart (self w)"
  by (simp add: change_password_def)

lemma cart_get_orders: "cart (self (snd (get_orders w))) = cart (self w)"
  by (simp add: get_orders_def)

lemma cart_exec:
  "\<forall>c. truthy S c \<Longrightarrow> cart (self w) = Some r \<Longrightarrow> cart (self (snd (exec S op w))) = Some r"
  by (cases op)
     (simp_all add: snd_relabel add_to_cart_Some cart_add_item_at cart_checkout
        cart_change_password cart_get_orders)

lemma cart_run:
  "\<forall>c. truthy S c \<Longrightarrow> cart (self w) = Some r \<Longrightarrow> cart (self (run S ops w)) = Some r"
  by (induction ops arbitrary: w) (simp_all add: cart_exec)

lemma email_verified_exec:
  "email_verified (self (snd (exec S op w))) = email_verified (self w)"
  by (cases op)
     (auto simp: snd_relabel change_password_def add_to_cart_def add_to_new_cart_def
        add_item_at_def checkout_def get_orders_def
        split: prod.splits option.splits sum.splits)

lemma email_verified_run: "email_verified (self (run S ops w)) = email_verified (self w)"
  by (induction ops arbitrary: w) (simp_all add: email_verified_exec)

lemma email_verified_exec_staff:
  "email_verified (self (snd (exec_staff S A op w))) = email_verified (self w)"
  by (cases op) (simp_all add: snd_relabel email_verified_exec)

lemma email_verified_run_staff:
  "email_verified (self (run_staff S A ops w)) = email_verified (self w)"
  by (induction ops arbitrary: w) (simp_all add: email_verified_exec_staff)

text \<open>The list of \<^verbatim>\<open>_orders\<close> stays an object of the store.\<close>

lemma allocated_init_user: "allocated (init_user uid nm em pw st)"
  by (simp add: allocated_def init_user_def)

lemma allocated_exec: "allocated w \<Longrightarrow> allocated (snd (exec S op w))"
  by (cases op)
     (auto simp: allocated_def snd_relabel change_password_def add_to_cart_def
        add_to_new_cart_def add_item_at_def checkout_def get_orders_def
        split: prod.splits option.splits sum.splits)

lemma allocated_run: "allocated w \<Longrightarrow> allocated (run S ops w)"
  by (induction ops arbitrary: w) (simp_all add: allocated_exec)

lemma cart_exec_not_None:
  "cart (self w) \<noteq> None \<Longrightarrow> cart (self (snd (exec S op w))) \<noteq> None"
  by (cases op)
     (auto simp: snd_relabel cart_checkout cart_change_password cart_get_orders
        add_to_cart_def add_to_new_cart_def cart_add_item_at split: sum.splits)

lemma cart_run_not_None:
  "cart (self w) \<noteq> None \<Longrightarrow> cart (self (run S ops w)) \<noteq> None"
proof (induction ops arbitrary: w)
  case Nil
  then show ?case by simp
next
  case (Cons op ops)
  have "cart (self (snd (exec S op w))) \<noteq> None"
    using Cons.prems by (rule cart_exec_not_None)
  then have x: "cart (self (run S ops (snd (exec S op w)))) \<noteq> None"
    by (rule Cons.IH)
  show ?case unfolding run.simps using x .
qed

section \<open>Facts about the numbers\<close>



















section \<open>The claims\<close>

text \<open>
  C7. \<^verbatim>\<open>login(email, password)\<close> returns true exactly when both arguments equal the
  stored email and password, by string equality (so a difference of case is a mismatch);
  it raises nothing and leaves the world as it was.
\<close>

theorem login_iff:
  "login em pw w = (em = email (self w) \<and> pw = password (self w))
   \<and> exec S (Login em pw) w = (Inr (RBool (login em pw w)), w)"
  by (auto simp: login_def)

theorem login_iff_witness:
  "login ''a@b.com'' ''secret123'' ann
   \<and> \<not> login ''A@b.com'' ''secret123'' ann
   \<and> \<not> login ''a@b.com'' ''Secret123'' ann
   \<and> exec list_cart (Login ''a@b.com'' ''secret123'') ann = (Inr (RBool True), ann)"
  using login_iff [of "''a@b.com''" "''secret123''" ann list_cart]
    login_iff [of "''A@b.com''" "''secret123''" ann list_cart]
    login_iff [of "''a@b.com''" "''Secret123''" ann list_cart]
  by (simp add: ann_fields)

text \<open>
  C1. \<^verbatim>\<open>change_password(old, new)\<close>: with a wrong \<open>old\<close> it returns false and changes
  nothing, whatever the length of \<open>new\<close>; with the right \<open>old\<close> and a \<open>new\<close> shorter than 8 it
  raises (the source's \<^verbatim>\<open>ValueError\<close>, the specification's ValidationError) and changes
  nothing; with the right \<open>old\<close> and a \<open>new\<close> of length at least 8 it returns true, the stored
  password is \<open>new\<close>, and afterwards \<^verbatim>\<open>login\<close> succeeds exactly with the stored email and
  \<open>new\<close>.
\<close>

theorem change_password_cases:
  "(password (self w) \<noteq> old \<longrightarrow> change_password old new w = (Inr False, w))
   \<and> (password (self w) = old \<and> length new < 8 \<longrightarrow>
        change_password old new w
          = (Inl (ValueError ''new_password must be at least 8 characters''), w))
   \<and> (password (self w) = old \<and> 8 \<le> length new \<longrightarrow>
        fst (change_password old new w) = Inr True
        \<and> password (self (snd (change_password old new w))) = new
        \<and> (\<forall>em pw. login em pw (snd (change_password old new w))
              = (em = email (self w) \<and> pw = new)))"
  by (auto simp: change_password_def login_def)

theorem change_password_cases_witness:
  "change_password ''wrong'' ''short'' ann = (Inr False, ann)
   \<and> change_password ''secret123'' ''short'' ann
       = (Inl (ValueError ''new_password must be at least 8 characters''), ann)
   \<and> fst (change_password ''secret123'' ''longenough1'' ann) = Inr True
   \<and> login ''a@b.com'' ''longenough1'' (snd (change_password ''secret123'' ''longenough1'' ann))
   \<and> \<not> login ''a@b.com'' ''secret123'' (snd (change_password ''secret123'' ''longenough1'' ann))"
  using change_password_cases [of ann "''wrong''" "''short''"]
    change_password_cases [of ann "''secret123''" "''short''"]
    change_password_cases [of ann "''secret123''" "''longenough1''"]
  by (simp add: ann_fields)

text \<open>
  C5. \<^verbatim>\<open>validate()\<close> returns normally exactly when \<^verbatim>\<open>person_id\<close> is a non-negative
  integer, \<^verbatim>\<open>name\<close> is a string that is not blank, and \<^verbatim>\<open>email\<close> contains \<open>@\<close> and has a
  \<open>.\<close> after its last \<open>@\<close>; in every other case it raises (the source's \<^verbatim>\<open>ValueError\<close>).
  It reads the fields as they are at the call and leaves the world as it was.
\<close>

theorem validate_iff:
  "((validate w = Inr ()) =
      (nonneg_int (person_id (self w)) \<and> nonblank_str (name (self w))
       \<and> CHR ''@'' \<in> set (email (self w))
       \<and> CHR ''.'' \<in> set (after_last CHR ''@'' (email (self w)))))
   \<and> (validate w \<noteq> Inr () \<longrightarrow> (\<exists>m. validate w = Inl (ValueError m)))
   \<and> snd (exec S Validate w) = w"
  by (auto simp: validate_def nonneg_int_def nonblank_str_def strip_empty_iff last_str_split
      contains_def split: pyval.splits)

theorem validate_iff_witness:
  "validate ann = Inr ()
   \<and> validate (ann\<lparr>self := (self ann)\<lparr>email := ''a@b''\<rparr>\<rparr>) \<noteq> Inr ()
   \<and> validate (ann\<lparr>self := (self ann)\<lparr>name := PyStr ''  ''\<rparr>\<rparr>) \<noteq> Inr ()
   \<and> validate (ann\<lparr>self := (self ann)\<lparr>person_id := PyInt (- 1)\<rparr>\<rparr>) \<noteq> Inr ()
   \<and> snd (exec list_cart Validate ann) = ann"
  using validate_iff [of ann list_cart]
    validate_iff [of "ann\<lparr>self := (self ann)\<lparr>email := ''a@b''\<rparr>\<rparr>" list_cart]
    validate_iff [of "ann\<lparr>self := (self ann)\<lparr>name := PyStr ''  ''\<rparr>\<rparr>" list_cart]
    validate_iff [of "ann\<lparr>self := (self ann)\<lparr>person_id := PyInt (- 1)\<rparr>\<rparr>" list_cart]
  by (simp add: ann_fields nonneg_int_def nonblank_str_def blank_def isspace_def after_last_def)

text \<open>
  C2, as the code has it. \<^verbatim>\<open>checkout(payment_method)\<close> raises
  \<^verbatim>\<open>ValueError("Cart is empty")\<close> (the specification's EmptyCartError), with the order
  history and the cart as they were, whenever \<^verbatim>\<open>not self._cart\<close> holds: when no cart
  exists, and also when the cart object that exists is falsy. When the cart exists and is
  truthy, it raises exactly what \<^verbatim>\<open>create_order\<close> or \<^verbatim>\<open>clear\<close> raises and otherwise
  returns the order. So it fails with that error if and only if no cart exists, or the cart
  is falsy, or one of the two methods raises it; for a cart class whose instances are
  always truthy and whose two methods do not raise it, if and only if no cart exists.
  \<^verbatim>\<open>checkout\<close> never changes which cart the user holds: after a checkout that returned,
  the cart still exists, and a second checkout raises the error when the emptied cart is
  falsy.
\<close>

theorem checkout_cart_is_empty:
  "(cart_falsy S w \<longrightarrow> checkout S pm w = (Inl (Raised (ValueError ''Cart is empty'')), w))
   \<and> (\<forall>r. cart (self w) = Some r \<and> truthy S (cart_objs w r) \<longrightarrow>
         (case order_failure S pm (cart_objs w r) of
            Some f \<Rightarrow> fst (checkout S pm w) = Inl f
          | None \<Rightarrow> fst (checkout S pm w) = fst (create_order S (cart_objs w r) pm)))
   \<and> ((fst (checkout S pm w) = Inl (Raised (ValueError ''Cart is empty''))) =
         (cart_falsy S w
          \<or> (\<exists>r. cart (self w) = Some r
                \<and> order_failure S pm (cart_objs w r)
                    = Some (Raised (ValueError ''Cart is empty'')))))
   \<and> ((\<forall>c. truthy S c)
        \<and> (\<forall>c. order_failure S pm c \<noteq> Some (Raised (ValueError ''Cart is empty''))) \<longrightarrow>
         (fst (checkout S pm w) = Inl (Raised (ValueError ''Cart is empty'')))
           = (cart (self w) = None))
   \<and> cart (self (snd (checkout S pm w))) = cart (self w)
   \<and> (\<forall>ord. fst (checkout S pm w) = Inr ord \<longrightarrow>
         cart (self w) \<noteq> None
         \<and> (cart_falsy S (snd (checkout S pm w)) \<longrightarrow>
              (\<forall>pm'. fst (checkout S pm' (snd (checkout S pm w)))
                 = Inl (Raised (ValueError ''Cart is empty'')))))"
proof -
  have guard: "checkout S p v = (Inl (Raised (ValueError ''Cart is empty'')), v)"
    if "cart_falsy S v" for v p
    using that by (auto simp: cart_falsy_def checkout_def split: option.splits)
  have pass: "case order_failure S pm (cart_objs w r) of
            Some f \<Rightarrow> fst (checkout S pm w) = Inl f
          | None \<Rightarrow> fst (checkout S pm w) = fst (create_order S (cart_objs w r) pm)"
    if "cart (self w) = Some r" and "truthy S (cart_objs w r)" for r
    using that
    by (auto simp: checkout_def order_failure_def split: prod.splits sum.splits)
  have never: "fst (checkout S pm w) \<noteq> Inl f"
    if "cart (self w) = Some r" and "truthy S (cart_objs w r)"
      and "order_failure S pm (cart_objs w r) \<noteq> Some f" for r f
    using that
    by (auto simp: checkout_def order_failure_def split: prod.splits sum.splits)
  have iff: "(fst (checkout S pm w) = Inl (Raised (ValueError ''Cart is empty''))) =
         (cart_falsy S w
          \<or> (\<exists>r. cart (self w) = Some r
                \<and> order_failure S pm (cart_objs w r)
                    = Some (Raised (ValueError ''Cart is empty''))))"
  proof (cases "cart_falsy S w")
    case True
    then show ?thesis by (simp add: guard)
  next
    case False
    then obtain r where r: "cart (self w) = Some r" "truthy S (cart_objs w r)"
      by (auto simp: cart_falsy_def split: option.splits)
    show ?thesis
    proof (cases "order_failure S pm (cart_objs w r) = Some (Raised (ValueError ''Cart is empty''))")
      case True
      then show ?thesis using pass [OF r] r by simp
    next
      case no: False
      then show ?thesis using never [OF r no] False r by simp
    qed
  qed
  have always: "(fst (checkout S pm w) = Inl (Raised (ValueError ''Cart is empty'')))
           = (cart (self w) = None)"
    if "\<forall>c. truthy S c"
      and "\<forall>c. order_failure S pm c \<noteq> Some (Raised (ValueError ''Cart is empty''))"
    using that iff by (auto simp: cart_falsy_def split: option.splits)
  have after: "cart (self w) \<noteq> None
         \<and> (cart_falsy S (snd (checkout S pm w)) \<longrightarrow>
              (\<forall>pm'. fst (checkout S pm' (snd (checkout S pm w)))
                 = Inl (Raised (ValueError ''Cart is empty''))))"
    if ok: "fst (checkout S pm w) = Inr ord" for ord
  proof -
    have "\<not> cart_falsy S w"
      using ok guard [of w pm] by auto
    then have "cart (self w) \<noteq> None"
      by (auto simp: cart_falsy_def split: option.splits)
    then show ?thesis by (simp add: guard)
  qed
  show ?thesis
    using guard [of w pm] pass iff always after cart_checkout [of S pm w] by blast
qed

theorem checkout_cart_is_empty_witness:
  "checkout list_cart ''card'' ann = (Inl (Raised (ValueError ''Cart is empty'')), ann)
   \<and> fst (checkout list_cart ''card'' ann_shopping) = Inr ([(''mint'', 2)], ''card'')
   \<and> cart (self (snd (checkout list_cart ''card'' ann_shopping))) = Some 1
   \<and> fst (checkout list_cart ''cash'' (snd (checkout list_cart ''card'' ann_shopping)))
       \<noteq> Inl (Raised (ValueError ''Cart is empty''))"
proof -
  note t = checkout_cart_is_empty [of list_cart ann "''card''"]
  note u = checkout_cart_is_empty [of list_cart ann_shopping "''card''"]
  note v = checkout_cart_is_empty
    [of list_cart "snd (checkout list_cart ''card'' ann_shopping)" "''cash''"]
  have h: "\<forall>c. truthy list_cart c"
    "\<forall>c. order_failure list_cart ''cash'' c \<noteq> Some (Raised (ValueError ''Cart is empty''))"
    by (simp_all add: order_failure_def list_cart_fields)
  have 1: "checkout list_cart ''card'' ann = (Inl (Raised (ValueError ''Cart is empty'')), ann)"
    using t by (simp add: cart_falsy_def ann_fields)
  have o: "order_failure list_cart ''card'' [(''mint'', 2)] = None"
    by (simp add: order_failure_def list_cart_fields)
  have g: "cart (self ann_shopping) = Some 1" "truthy list_cart (cart_objs ann_shopping 1)"
    by (simp_all add: ann_shopping_fields list_cart_fields)
  have "case order_failure list_cart ''card'' (cart_objs ann_shopping 1) of
      Some f \<Rightarrow> fst (checkout list_cart ''card'' ann_shopping) = Inl f
    | None \<Rightarrow> fst (checkout list_cart ''card'' ann_shopping)
        = fst (create_order list_cart (cart_objs ann_shopping 1) ''card'')"
    using u g by blast
  then have 2: "fst (checkout list_cart ''card'' ann_shopping) = Inr ([(''mint'', 2)], ''card'')"
    by (simp add: o ann_shopping_fields list_cart_fields)
  have 3: "cart (self (snd (checkout list_cart ''card'' ann_shopping))) = Some 1"
    using u by (simp add: ann_shopping_fields)
  have "(fst (checkout list_cart ''cash'' (snd (checkout list_cart ''card'' ann_shopping)))
       = Inl (Raised (ValueError ''Cart is empty'')))
      = (cart (self (snd (checkout list_cart ''card'' ann_shopping))) = None)"
    using v h by blast
  then have 4: "fst (checkout list_cart ''cash'' (snd (checkout list_cart ''card'' ann_shopping)))
       \<noteq> Inl (Raised (ValueError ''Cart is empty''))"
    using 3 by simp
  show ?thesis using 1 2 3 4 by blast
qed

text \<open>
  C2, as the claim states it, fails for a cart class with a \<^verbatim>\<open>__len__\<close> that counts the
  items: after \<^verbatim>\<open>add_to_cart\<close> and a checkout that returns the order, the cart 1 still
  exists and is empty, and the second checkout raises \<^verbatim>\<open>ValueError("Cart is empty")\<close>.
\<close>

theorem checkout_cart_is_empty_counterexample:
  "fst (checkout sized_cart ''card'' (snd (add_to_cart sized_cart ''mint'' 2 ann)))
     = Inr ([(''mint'', 2)], ''card'')
   \<and> get_cart (snd (checkout sized_cart ''card'' (snd (add_to_cart sized_cart ''mint'' 2 ann))))
     = Some 1
   \<and> fst (checkout sized_cart ''cash''
        (snd (checkout sized_cart ''card'' (snd (add_to_cart sized_cart ''mint'' 2 ann)))))
     = Inl (Raised (ValueError ''Cart is empty''))"
  by (simp add: checkout_def add_to_cart_def add_to_new_cart_def add_item_at_def get_cart_def
      ann_fields sized_cart_fields)

text \<open>
  C3, as the code has it. The cart starts absent. \<^verbatim>\<open>add_to_cart\<close> makes a new cart object
  exactly when \<^verbatim>\<open>not self._cart\<close> holds, that is when no cart exists and also when the
  cart that exists is falsy, which is then replaced; the new cart receives the item (and
  when the constructor raises, nothing changes). Otherwise \<^verbatim>\<open>add_to_cart\<close> calls
  \<^verbatim>\<open>add_item\<close> on the cart that exists, and nothing else changes. \<^verbatim>\<open>checkout\<close> never
  changes which cart the user holds, and once a cart exists no sequence of calls makes it
  absent again. For a cart class whose instances are always truthy, \<^verbatim>\<open>get_cart\<close> returns
  the same cart object after every sequence of calls.
\<close>

theorem cart_lifecycle:
  "get_cart (init_user uid nm em pw st) = None
   \<and> (\<forall>c0. cart_falsy S w \<and> new_cart S = Inr c0 \<longrightarrow>
         add_to_cart S k q w =
           (fst (add_item S c0 k q),
            w\<lparr>cart_objs := (cart_objs w)(next_ref w := snd (add_item S c0 k q)),
               next_ref := Suc (next_ref w),
               self := (self w)\<lparr>cart := Some (next_ref w)\<rparr>\<rparr>))
   \<and> (\<forall>f. cart_falsy S w \<and> new_cart S = Inl f \<longrightarrow> add_to_cart S k q w = (Inl f, w))
   \<and> (\<forall>r. cart (self w) = Some r \<and> truthy S (cart_objs w r) \<longrightarrow>
         add_to_cart S k q w =
           (fst (add_item S (cart_objs w r) k q),
            w\<lparr>cart_objs := (cart_objs w)(r := snd (add_item S (cart_objs w r) k q))\<rparr>))
   \<and> get_cart (snd (checkout S pm w)) = get_cart w
   \<and> (get_cart w \<noteq> None \<longrightarrow> (\<forall>ops. get_cart (run S ops w) \<noteq> None))
   \<and> ((\<forall>c. truthy S c) \<longrightarrow>
        (\<forall>r ops. get_cart w = Some r \<longrightarrow> get_cart (run S ops w) = Some r))"
proof -
  have init: "get_cart (init_user uid nm em pw st) = None"
    by (simp add: get_cart_def init_user_def)
  have new: "add_to_cart S k q w =
           (fst (add_item S c0 k q),
            w\<lparr>cart_objs := (cart_objs w)(next_ref w := snd (add_item S c0 k q)),
               next_ref := Suc (next_ref w),
               self := (self w)\<lparr>cart := Some (next_ref w)\<rparr>\<rparr>)"
    if "cart_falsy S w" and "new_cart S = Inr c0" for c0
    using that
    by (auto simp: cart_falsy_def add_to_cart_def add_to_new_cart_def add_item_at_def
        split: option.splits prod.splits)
  have fail: "add_to_cart S k q w = (Inl f, w)"
    if "cart_falsy S w" and "new_cart S = Inl f" for f
    using that
    by (auto simp: cart_falsy_def add_to_cart_def add_to_new_cart_def split: option.splits)
  have old: "add_to_cart S k q w =
           (fst (add_item S (cart_objs w r) k q),
            w\<lparr>cart_objs := (cart_objs w)(r := snd (add_item S (cart_objs w r) k q))\<rparr>)"
    if "cart (self w) = Some r" and "truthy S (cart_objs w r)" for r
    using that by (simp add: add_to_cart_def add_item_at_def split: prod.splits)
  have co: "get_cart (snd (checkout S pm w)) = get_cart w"
    by (simp add: get_cart_def cart_checkout)
  have stays: "get_cart (run S ops w) \<noteq> None" if "get_cart w \<noteq> None" for ops
    using that cart_run_not_None [of w S ops] by (simp add: get_cart_def)
  have same: "get_cart (run S ops w) = Some r"
    if "\<forall>c. truthy S c" and "get_cart w = Some r" for r ops
    using that cart_run [of S w r ops] by (simp add: get_cart_def)
  show ?thesis
    using init new fail old co stays same by blast
qed

theorem cart_lifecycle_witness:
  "get_cart ann = None
   \<and> get_cart ann_shopping = Some 1
   \<and> cart_objs ann_shopping 1 = [(''mint'', 2)]
   \<and> fst (add_to_cart list_cart ''gum'' 1 ann_shopping) = Inr ()
   \<and> cart_objs (snd (add_to_cart list_cart ''gum'' 1 ann_shopping)) 1
       = [(''mint'', 2), (''gum'', 1)]
   \<and> next_ref (snd (add_to_cart list_cart ''gum'' 1 ann_shopping)) = 2
   \<and> get_cart (run list_cart
        [Checkout ''card'', AddToCart ''gum'' 1, GetOrders, Checkout ''cash'', Checkout ''cash'']
        ann_shopping) = Some 1"
proof -
  note t = cart_lifecycle [of "PyInt 1" "PyStr ''Ann''" "''a@b.com''" "''secret123''"
      empty_store list_cart ann "''mint''" 2 "''card''"]
  note u = cart_lifecycle [of "PyInt 1" "PyStr ''Ann''" "''a@b.com''" "''secret123''"
      empty_store list_cart ann_shopping "''gum''" 1 "''card''"]
  have h: "\<forall>c. truthy list_cart c"
    by (simp add: list_cart_fields)
  have 1: "get_cart ann = None"
    using t [THEN conjunct1] by (simp add: ann_def)
  have f: "cart_falsy list_cart ann" "new_cart list_cart = Inr []"
    by (simp_all add: cart_falsy_def ann_fields list_cart_fields)
  have "add_to_cart list_cart ''mint'' 2 ann =
      (fst (add_item list_cart [] ''mint'' 2),
       ann\<lparr>cart_objs := (cart_objs ann)(next_ref ann := snd (add_item list_cart [] ''mint'' 2)),
           next_ref := Suc (next_ref ann),
           self := (self ann)\<lparr>cart := Some (next_ref ann)\<rparr>\<rparr>)"
    using t f by blast
  then have 2: "get_cart ann_shopping = Some 1" "cart_objs ann_shopping 1 = [(''mint'', 2)]"
    by (simp_all add: ann_shopping_def get_cart_def ann_fields list_cart_fields)
  have g: "cart (self ann_shopping) = Some 1" "truthy list_cart (cart_objs ann_shopping 1)"
    using 2 by (simp_all add: get_cart_def list_cart_fields)
  have a: "add_to_cart list_cart ''gum'' 1 ann_shopping =
      (fst (add_item list_cart (cart_objs ann_shopping 1) ''gum'' 1),
       ann_shopping\<lparr>cart_objs := (cart_objs ann_shopping)
          (1 := snd (add_item list_cart (cart_objs ann_shopping 1) ''gum'' 1))\<rparr>)"
    using u g by blast
  have 3: "fst (add_to_cart list_cart ''gum'' 1 ann_shopping) = Inr ()"
    "cart_objs (snd (add_to_cart list_cart ''gum'' 1 ann_shopping)) 1
       = [(''mint'', 2), (''gum'', 1)]"
    "next_ref (snd (add_to_cart list_cart ''gum'' 1 ann_shopping)) = 2"
    by (simp_all add: a 2 list_cart_fields ann_shopping_fields)
  have 4: "get_cart (run list_cart
        [Checkout ''card'', AddToCart ''gum'' 1, GetOrders, Checkout ''cash'', Checkout ''cash'']
        ann_shopping) = Some 1"
    using u h 2(1) by blast
  show ?thesis using 1 2 3 4 by blast
qed

text \<open>
  C3, as the claim states it, fails for the same cart class: the first \<^verbatim>\<open>add_to_cart\<close>
  creates the cart 1, and after a checkout the next \<^verbatim>\<open>add_to_cart\<close> finds the emptied
  cart falsy and replaces it by a new cart 2.
\<close>

theorem cart_lifecycle_counterexample:
  "get_cart (snd (add_to_cart sized_cart ''mint'' 2 ann)) = Some 1
   \<and> get_cart (run sized_cart [Checkout ''card'', AddToCart ''gum'' 1]
        (snd (add_to_cart sized_cart ''mint'' 2 ann))) = Some 2"
  by (simp add: checkout_def add_to_cart_def add_to_new_cart_def add_item_at_def get_cart_def
      ann_fields sized_cart_fields)



text \<open>
  C6. \<^verbatim>\<open>get_orders()\<close> returns a reference to a new list object, different from the
  object of \<^verbatim>\<open>_orders\<close>, holding the same orders. The call leaves the fields of the user,
  every cart object and every list object that existed as they were. Whatever a caller
  then does to the returned list (\<open>list_assign\<close> leaves any contents \<open>ys\<close> in it,
  \<open>list_append\<close> is \<^verbatim>\<open>append\<close>), the history and the result of a later \<^verbatim>\<open>get_orders()\<close> are
  the same as before.
\<close>

theorem get_orders_copy:
  assumes "allocated w"
  shows "fst (get_orders w) \<noteq> orders (self w)
    \<and> self (snd (get_orders w)) = self w
    \<and> cart_objs (snd (get_orders w)) = cart_objs w
    \<and> (\<forall>r. r < next_ref w \<longrightarrow> list_objs (snd (get_orders w)) r = list_objs w r)
    \<and> list_objs (snd (get_orders w)) (fst (get_orders w)) = list_objs w (orders (self w))
    \<and> (\<forall>ys. list_objs (list_assign (fst (get_orders w)) ys (snd (get_orders w)))
               (orders (self w))
             = list_objs w (orders (self w))
          \<and> list_objs
               (snd (get_orders (list_assign (fst (get_orders w)) ys (snd (get_orders w)))))
               (fst (get_orders (list_assign (fst (get_orders w)) ys (snd (get_orders w)))))
             = list_objs w (orders (self w)))
    \<and> (\<forall>x. list_append (fst (get_orders w)) x (snd (get_orders w))
             = list_assign (fst (get_orders w)) (list_objs w (orders (self w)) @ [x])
                 (snd (get_orders w)))"
  using assms by (auto simp: allocated_def get_orders_def list_assign_def list_append_def)

theorem get_orders_copy_witness:
  "allocated (snd (checkout list_cart ''card'' ann_shopping))
   \<and> fst (get_orders (snd (checkout list_cart ''card'' ann_shopping))) = 2
   \<and> orders (self (snd (checkout list_cart ''card'' ann_shopping))) = 0
   \<and> list_objs (snd (get_orders (snd (checkout list_cart ''card'' ann_shopping)))) 2
       = [([(''mint'', 2)], ''card'')]
   \<and> list_objs
        (list_append 2 ([], ''forged'') (snd (get_orders (snd (checkout list_cart ''card'' ann_shopping)))))
        2
       = [([(''mint'', 2)], ''card''), ([], ''forged'')]
   \<and> list_objs
        (list_append 2 ([], ''forged'') (snd (get_orders (snd (checkout list_cart ''card'' ann_shopping)))))
        0
       = [([(''mint'', 2)], ''card'')]"
proof -
  define w where "w = snd (checkout list_cart ''card'' ann_shopping)"
  have f: "orders (self w) = 0" "next_ref w = 2"
    "list_objs w 0 = [([(''mint'', 2)], ''card'')]"
    by (simp_all add: w_def checkout_def ann_shopping_fields list_cart_fields)
  have h: "allocated w"
    by (simp add: allocated_def f)
  have g: "fst (get_orders w) = 2"
    by (simp add: get_orders_def f)
  note t = get_orders_copy [OF h]
  have 1: "list_objs (snd (get_orders w)) 2 = [([(''mint'', 2)], ''card'')]"
    using t [THEN conjunct2, THEN conjunct2, THEN conjunct2, THEN conjunct2, THEN conjunct1]
    by (simp only: g f)
  have a: "list_append 2 ([], ''forged'') (snd (get_orders w))
      = list_assign 2 ([([(''mint'', 2)], ''card''), ([], ''forged'')]) (snd (get_orders w))"
    using t by (simp add: g f)
  have 2: "list_objs (list_append 2 ([], ''forged'') (snd (get_orders w))) 2
      = [([(''mint'', 2)], ''card''), ([], ''forged'')]"
    by (simp add: a list_assign_def)
  have 3: "list_objs (list_append 2 ([], ''forged'') (snd (get_orders w))) 0
      = [([(''mint'', 2)], ''card'')]"
    using t by (simp add: a g f)
  show ?thesis
    using h g f(1) 1 2 3 unfolding w_def by blast
qed




text \<open>
  C9, as the code has it. The layer has one kind of failure of its own, not two: every
  \<^verbatim>\<open>raise\<close> of the source raises \<^verbatim>\<open>ValueError\<close>. \<^verbatim>\<open>validate()\<close> raises it with one of
  three messages, \<^verbatim>\<open>change_password\<close> with a right old and a short new password with a
  fourth, \<^verbatim>\<open>checkout\<close> without a cart with a fifth, and the five messages differ, so only
  the message tells the failures apart. \<^verbatim>\<open>login\<close>, and \<^verbatim>\<open>change_password\<close> with a wrong
  old password, return a boolean and raise nothing.
\<close>

theorem error_kinds:
  "(validate w = Inr ()
      \<or> validate w = Inl (ValueError ''person_id must be a non-negative int'')
      \<or> validate w = Inl (ValueError ''name must be a non-empty string'')
      \<or> validate w = Inl (ValueError ''email appears invalid''))
   \<and> (password (self w) = old \<and> length new < 8 \<longrightarrow>
        fst (change_password old new w)
          = Inl (ValueError ''new_password must be at least 8 characters''))
   \<and> (password (self w) \<noteq> old \<longrightarrow> fst (change_password old new w) = Inr False)
   \<and> (cart (self w) = None \<longrightarrow>
        fst (checkout S pm w) = Inl (Raised (ValueError ''Cart is empty'')))
   \<and> fst (exec S (Login em pw) w) = Inr (RBool (login em pw w))
   \<and> distinct [''person_id must be a non-negative int'', ''name must be a non-empty string'',
        ''email appears invalid'', ''new_password must be at least 8 characters'',
        ''Cart is empty'']"
  by (simp add: validate_def change_password_def checkout_def)

theorem error_kinds_witness:
  "validate (ann\<lparr>self := (self ann)\<lparr>email := ''a@b''\<rparr>\<rparr>)
     = Inl (ValueError ''email appears invalid'')
   \<and> fst (change_password ''secret123'' ''short'' ann)
       = Inl (ValueError ''new_password must be at least 8 characters'')
   \<and> fst (change_password ''wrong'' ''short'' ann) = Inr False
   \<and> fst (checkout list_cart ''card'' ann) = Inl (Raised (ValueError ''Cart is empty''))
   \<and> fst (exec list_cart (Login ''a@b.com'' ''nope'') ann) = Inr (RBool False)"
proof -
  have v: "validate (ann\<lparr>self := (self ann)\<lparr>email := ''a@b''\<rparr>\<rparr>) \<noteq> Inr ()"
    "validate (ann\<lparr>self := (self ann)\<lparr>email := ''a@b''\<rparr>\<rparr>)
       \<noteq> Inl (ValueError ''person_id must be a non-negative int'')"
    "validate (ann\<lparr>self := (self ann)\<lparr>email := ''a@b''\<rparr>\<rparr>)
       \<noteq> Inl (ValueError ''name must be a non-empty string'')"
    by (simp_all add: validate_def ann_fields strip_def isspace_def contains_def)
  have l: "\<not> login ''a@b.com'' ''nope'' ann"
    by (simp add: login_def ann_fields)
  show ?thesis
    using v l
      error_kinds [of "ann\<lparr>self := (self ann)\<lparr>email := ''a@b''\<rparr>\<rparr>" "''secret123''" "''short''"
        list_cart "''card''" "''a@b.com''" "''nope''"]
      error_kinds [of ann "''secret123''" "''short''" list_cart "''card''" "''a@b.com''" "''nope''"]
      error_kinds [of ann "''wrong''" "''short''" list_cart "''card''" "''a@b.com''" "''nope''"]
    by (simp add: ann_fields)
qed

text \<open>
  C9, as the claim states it, fails: the exception of \<^verbatim>\<open>checkout\<close> without a cart and the
  exception of \<^verbatim>\<open>change_password\<close> with a short new password are both \<^verbatim>\<open>ValueError\<close>,
  the same kind, for the user of the scenario.
\<close>

theorem error_kinds_counterexample:
  "fst (checkout list_cart ''card'' ann) = Inl (Raised (ValueError ''Cart is empty''))
   \<and> fst (change_password ''secret123'' ''short'' ann)
       = Inl (ValueError ''new_password must be at least 8 characters'')"
  by (simp add: checkout_def change_password_def ann_fields)

text \<open>
  C10. \<^verbatim>\<open>email_verified\<close> is \<^verbatim>\<open>False\<close> in a new \<^verbatim>\<open>User\<close> and in a new \<^verbatim>\<open>Staff\<close>, no
  call changes it, and so it is \<^verbatim>\<open>False\<close> after every sequence of calls on a new object.
\<close>

theorem email_verified_stays_False:
  "email_verified (self (init_user uid nm em pw st)) = False
   \<and> email_verified (self (init_staff uid nm em pw pos st)) = False
   \<and> email_verified (self (snd (exec S op w))) = email_verified (self w)
   \<and> email_verified (self (snd (exec_staff S' A sop sw))) = email_verified (self sw)
   \<and> email_verified (self (run S1 ops (init_user uid nm em pw st1))) = False
   \<and> email_verified (self (run_staff S2 A2 sops (init_staff uid nm em pw pos st2))) = False"
  by (simp add: email_verified_exec email_verified_exec_staff email_verified_run
      email_verified_run_staff init_user_def init_staff_def)

end
